theory Spec2Isabelle
  imports Main "HOL-Library.Sublist"
begin

section \<open>Values of the JavaScript runtime\<close>

text \<open>
  The daily-recipe pipeline of \<^verbatim>\<open>src/App.tsx\<close> moves untyped JSON values around:
  what \<^verbatim>\<open>JSON.parse\<close> returns, what the shared store sends back, what is handed to
  \<^verbatim>\<open>setDailyRecipe\<close>. They are modelled as a datatype; \<open>JNull\<close> is \<^verbatim>\<open>null\<close>. Numbers
  are only ever tested for being zero, so they are integers here. An object is the
  list of its own properties, each name once; a property read is a lookup in that
  list.
\<close>

datatype json =
    JNull
  | JBool bool
  | JNum int
  | JStr string
  | JArr "json list"
  | JObj "(string \<times> json) list"

text \<open>Truthiness, as in \<^verbatim>\<open>if (recipe)\<close> and \<^verbatim>\<open>parsed && ...\<close>.\<close>

fun truthy :: "json \<Rightarrow> bool" where
  "truthy JNull = False"
| "truthy (JBool b) = b"
| "truthy (JNum n) = (n \<noteq> 0)"
| "truthy (JStr s) = (s \<noteq> [])"
| "truthy (JArr xs) = True"
| "truthy (JObj kvs) = True"

text \<open>
  \<^verbatim>\<open>v.benefits\<close> on a truthy value: the property of an object, \<^verbatim>\<open>undefined\<close>
  (\<open>None\<close>) when the object has no such property or the value is not an object.
\<close>

fun get_field :: "json \<Rightarrow> string \<Rightarrow> json option" where
  "get_field (JObj kvs) k = map_of kvs k"
| "get_field v k = None"

text \<open>\<^verbatim>\<open>Array.isArray\<close> of a possibly undefined value.\<close>

fun isArray :: "json option \<Rightarrow> bool" where
  "isArray (Some (JArr xs)) = True"
| "isArray v = False"

text \<open>
  \<^verbatim>\<open>JSON.parse\<close> and \<^verbatim>\<open>JSON.stringify\<close> belong to the runtime, not to the
  repository: the pipeline is parametrised by them. \<open>parse\<close> returns \<open>None\<close> where
  \<^verbatim>\<open>JSON.parse\<close> throws a \<^verbatim>\<open>SyntaxError\<close>.
\<close>

record json_lib =
  parse :: "string \<Rightarrow> json option"
  stringify :: "json \<Rightarrow> string"

section \<open>Strings\<close>

text \<open>
  Strings are lists of code units below 256. \<^verbatim>\<open>String.prototype.trim\<close> removes
  white space and line terminators at both ends.
\<close>

definition is_ws :: "char \<Rightarrow> bool" where
  "is_ws c = (c \<in> set [CHR 0x09, CHR 0x0A, CHR 0x0B, CHR 0x0C, CHR 0x0D, CHR 0x20, CHR 0xA0])"

definition trim :: "string \<Rightarrow> string" where
  "trim s = rev (dropWhile is_ws (rev (dropWhile is_ws s)))"

text \<open>\<^verbatim>\<open>s.includes(p)\<close>: \<open>p\<close> occurs in \<open>s\<close> at some position.\<close>

fun str_includes :: "string \<Rightarrow> string \<Rightarrow> bool" where
  "str_includes [] p = (p = [])"
| "str_includes (c # cs) p = (prefix p (c # cs) \<or> str_includes cs p)"

text \<open>
  \<^verbatim>\<open>s.replace(/p/g, r)\<close> for a pattern \<open>p\<close> that is a literal: the occurrences are
  found from left to right, each search resuming after the previous match.
\<close>

fun replace_g :: "string \<Rightarrow> string \<Rightarrow> string \<Rightarrow> string" where
  "replace_g p r [] = []"
| "replace_g p r (c # cs) =
     (if p \<noteq> [] \<and> prefix p (c # cs)
      then r @ replace_g p r (drop (length p) (c # cs))
      else c # replace_g p r cs)"

text \<open>\<^verbatim>\<open>s.split('T')[0]\<close>: the part of \<open>s\<close> before the first \<^verbatim>\<open>T\<close>.\<close>

definition split_T0 :: "string \<Rightarrow> string" where
  "split_T0 s = takeWhile (\<lambda>c. c \<noteq> CHR ''T'') s"

section \<open>Dates\<close>

text \<open>
  A \<^verbatim>\<open>Date\<close> is a time value: milliseconds since 1970-01-01T00:00:00Z. The day
  number, the calendar date of a day number (proleptic Gregorian calendar) and the
  two renderings the pipeline uses follow ECMAScript: \<^verbatim>\<open>toISOString\<close> renders the UTC
  date and time, \<^verbatim>\<open>toDateString\<close> the date in local time, which is UTC shifted by the
  zone offset \<open>tza\<close> (in milliseconds) in force at that time.
\<close>

definition msPerDay :: int where
  "msPerDay = 86400000"

definition Day :: "int \<Rightarrow> int" where
  "Day t = t div msPerDay"

definition TimeWithinDay :: "int \<Rightarrow> int" where
  "TimeWithinDay t = t mod msPerDay"

text \<open>Year, month (1 to 12) and day of the month (1 to 31) of a day number.\<close>

definition civil :: "int \<Rightarrow> int \<times> int \<times> int" where
  "civil dn =
     (let z = dn + 719468;
          era = z div 146097;
          doe = z mod 146097;
          yoe = (doe - doe div 1460 + doe div 36524 - doe div 146096) div 365;
          doy = doe - (365 * yoe + yoe div 4 - yoe div 100);
          mp = (5 * doy + 2) div 153;
          d = doy - (153 * mp + 2) div 5 + 1;
          m = (if mp < 10 then mp + 3 else mp - 9);
          y = yoe + era * 400
      in (if m \<le> 2 then y + 1 else y, m, d))"

text \<open>The last \<open>k\<close> decimal digits of a number, and its zero-padded rendering.\<close>

definition decimal_digits :: string where
  "decimal_digits = ''0123456789''"

fun lsd :: "nat \<Rightarrow> nat \<Rightarrow> string" where
  "lsd 0 n = []"
| "lsd (Suc k) n = lsd k (n div 10) @ [decimal_digits ! (n mod 10)]"

fun numdigits :: "nat \<Rightarrow> nat" where
  "numdigits n = (if n < 10 then 1 else Suc (numdigits (n div 10)))"

declare numdigits.simps [simp del]

definition ToZeroPaddedDecimalString :: "int \<Rightarrow> nat \<Rightarrow> string" where
  "ToZeroPaddedDecimalString n w = lsd (max w (numdigits (nat n))) (nat n)"

definition pad2 :: "int \<Rightarrow> string" where
  "pad2 n = ToZeroPaddedDecimalString n 2"

text \<open>
  The date part of \<^verbatim>\<open>toISOString\<close>, for a day number: \<^verbatim>\<open>YYYY-MM-DD\<close>, the year with a
  sign and six digits outside 0 to 9999.
\<close>

definition isoDate :: "int \<Rightarrow> string" where
  "isoDate dn =
     (let (y, m, d) = civil dn;
          year = (if 0 \<le> y \<and> y \<le> 9999 then ToZeroPaddedDecimalString y 4
                  else (if y < 0 then ''-'' else ''+'') @ ToZeroPaddedDecimalString \<bar>y\<bar> 6)
      in year @ ''-'' @ pad2 m @ ''-'' @ pad2 d)"

definition toISOString :: "int \<Rightarrow> string" where
  "toISOString t =
     (let ms = TimeWithinDay t
      in isoDate (Day t) @ ''T''
         @ pad2 (ms div 3600000) @ '':'' @ pad2 (ms div 60000 mod 60) @ '':''
         @ pad2 (ms div 1000 mod 60) @ ''.'' @ ToZeroPaddedDecimalString (ms mod 1000) 3 @ ''Z'')"

definition weekdayName :: "int \<Rightarrow> string" where
  "weekdayName n = [''Sun'', ''Mon'', ''Tue'', ''Wed'', ''Thu'', ''Fri'', ''Sat''] ! nat n"

definition monthName :: "int \<Rightarrow> string" where
  "monthName m = [''Jan'', ''Feb'', ''Mar'', ''Apr'', ''May'', ''Jun'',
                  ''Jul'', ''Aug'', ''Sep'', ''Oct'', ''Nov'', ''Dec''] ! nat (m - 1)"

text \<open>The text of \<^verbatim>\<open>toDateString\<close> for a day number, as in \<^verbatim>\<open>Tue Nov 03 2026\<close>.\<close>

definition dateString :: "int \<Rightarrow> string" where
  "dateString dn =
     (let (y, m, d) = civil dn
      in weekdayName ((dn + 4) mod 7) @ '' '' @ monthName m @ '' '' @ pad2 d @ '' ''
         @ (if 0 \<le> y then [] else ''-'') @ ToZeroPaddedDecimalString \<bar>y\<bar> 4)"

definition toDateString :: "int \<Rightarrow> int \<Rightarrow> string" where
  "toDateString tza t = dateString (Day (t + tza))"

section \<open>The generation stage\<close>

text \<open>
  What \<^verbatim>\<open>await ai.models.generateContent(...)\<close> does: the promise rejects, or it
  resolves to a response whose \<^verbatim>\<open>text\<close> is a string or \<^verbatim>\<open>undefined\<close>.
\<close>

datatype gen_response = Rejects | Responds "string option"

text \<open>
  \<^verbatim>\<open>generateDailyRecipe\<close> of the service module with the fence handling
  (\<^verbatim>\<open>src/unnamed/part_000\<close>). The result \<^verbatim>\<open>null\<close> is \<open>JNull\<close>; the function returns
  whatever \<^verbatim>\<open>JSON.parse\<close> returns, without looking at it.
\<close>

definition generateDailyRecipe :: "json_lib \<Rightarrow> gen_response \<Rightarrow> json" where
  "generateDailyRecipe lib response =
     (case response of
        Rejects \<Rightarrow> JNull
      | Responds None \<Rightarrow> JNull
      | Responds (Some t) \<Rightarrow>
          if t \<noteq> [] then
            (let text = trim t;
                 text = (if str_includes text ''```''
                         then trim (replace_g ''```'' [] (replace_g ''```json'' [] text))
                         else text)
             in case parse lib text of
                  Some v \<Rightarrow> v
                | None \<Rightarrow> JNull)
          else JNull)"

text \<open>
  The repository holds a second \<^verbatim>\<open>generateDailyRecipe\<close> (the module that follows
  \<^verbatim>\<open>src/types.ts\<close>): it parses the trimmed text as it is, and the \<^verbatim>\<open>SyntaxError\<close> of
  \<^verbatim>\<open>JSON.parse\<close> lands in the same \<^verbatim>\<open>catch\<close> as a rejected request.
\<close>

definition generateDailyRecipe_plain :: "json_lib \<Rightarrow> gen_response \<Rightarrow> json" where
  "generateDailyRecipe_plain lib response =
     (case response of
        Rejects \<Rightarrow> JNull
      | Responds None \<Rightarrow> JNull
      | Responds (Some t) \<Rightarrow>
          if t \<noteq> [] then
            (case parse lib (trim t) of
               Some v \<Rightarrow> v
             | None \<Rightarrow> JNull)
          else JNull)"

section \<open>The environment of a resolution\<close>

text \<open>
  Everything outside the pipeline that one resolution reads: the two clock readings
  of its two \<^verbatim>\<open>new Date()\<close> calls and the zone offset, the device's
  \<^verbatim>\<open>localStorage\<close>, the two environment variables of the shared store, what the store
  answers to a lookup by date, and what the generation service answers.

  The lookup \<^verbatim>\<open>await supabase.from('daily_recipes').select('recipe_data').eq('date', k)
  .single()\<close> has three outcomes. The access to the client throws before any request
  is sent: with the proxy module, \<^verbatim>\<open>supabase.from\<close> runs \<^verbatim>\<open>getSupabase\<close>, whose
  \<^verbatim>\<open>createClient\<close> throws on credentials it refuses (a URL that is none). Or the
  request is sent and the awaited promise rejects. Or the request resolves to a pair
  \<^verbatim>\<open>{data, error}\<close>: \<open>data\<close> is \<open>Some r\<close> for a row whose \<^verbatim>\<open>recipe_data\<close> is \<open>r\<close> and \<open>None\<close>
  for \<^verbatim>\<open>null\<close>; \<open>error\<close> says whether \<^verbatim>\<open>error\<close> is set. \<^verbatim>\<open>localStorage\<close> is a map from
  keys to strings whose writes succeed.
\<close>

record select_reply =
  data :: "json option"
  error :: bool

datatype select_outcome = ClientThrows | RequestRejects | Answers select_reply

record world =
  now1 :: int
  now2 :: int
  localTZA :: int
  localStorage :: "string \<rightharpoonup> string"
  VITE_SUPABASE_URL :: "string option"
  VITE_SUPABASE_ANON_KEY :: "string option"
  select_single :: "string \<Rightarrow> select_outcome"
  gemini :: gen_response

section \<open>The shared store client\<close>

text \<open>\<^verbatim>\<open>import.meta.env.X || ''\<close>\<close>

definition or_empty :: "string option \<Rightarrow> string" where
  "or_empty v = (case v of None \<Rightarrow> [] | Some s \<Rightarrow> s)"

definition supabaseUrl :: "world \<Rightarrow> string" where
  "supabaseUrl w = or_empty (VITE_SUPABASE_URL w)"

definition supabaseAnonKey :: "world \<Rightarrow> string" where
  "supabaseAnonKey w = or_empty (VITE_SUPABASE_ANON_KEY w)"

text \<open>\<^verbatim>\<open>Boolean(supabaseUrl && supabaseAnonKey)\<close>\<close>

definition isSupabaseConfigured :: "world \<Rightarrow> bool" where
  "isSupabaseConfigured w = (supabaseUrl w \<noteq> [] \<and> supabaseAnonKey w \<noteq> [])"

text \<open>
  \<^verbatim>\<open>getSupabase\<close>: the module keeps the client in a variable, \<open>None\<close> until the first
  call creates it. The function returns the client, or \<^verbatim>\<open>null\<close>, and the variable.
\<close>

definition getSupabase ::
    "(string \<Rightarrow> string \<Rightarrow> 'c) \<Rightarrow> world \<Rightarrow> 'c option \<Rightarrow> 'c option \<times> 'c option" where
  "getSupabase createClient w client =
     (if \<not> isSupabaseConfigured w then (None, client)
      else (case client of
              None \<Rightarrow> (let c = createClient (supabaseUrl w) (supabaseAnonKey w) in (Some c, Some c))
            | Some c \<Rightarrow> (Some c, client)))"

text \<open>The \<^verbatim>\<open>get\<close> trap of the exported proxy: it throws where \<^verbatim>\<open>getSupabase\<close> has no client.\<close>

datatype error = NotConfigured

definition supabase_get ::
    "(string \<Rightarrow> string \<Rightarrow> 'c) \<Rightarrow> world \<Rightarrow> 'c option \<Rightarrow> (error + 'c) \<times> 'c option" where
  "supabase_get createClient w client =
     (case getSupabase createClient w client of
        (None, client') \<Rightarrow> (Inl NotConfigured, client')
      | (Some s, client') \<Rightarrow> (Inr s, client'))"

section \<open>The daily-recipe pipeline\<close>

text \<open>
  What one resolution leaves behind: the two pieces of component state it sets, the
  device's \<^verbatim>\<open>localStorage\<close>, and the requests it sent, in order.
\<close>

datatype call = SharedRead string | Generate | SharedWrite string json

record state =
  dailyRecipe :: json
  isGeneratingRecipe :: bool
  storage :: "string \<rightharpoonup> string"
  calls :: "call list"

definition today_of :: "world \<Rightarrow> string" where
  "today_of w = split_T0 (toISOString (now1 w))"

definition todayString_of :: "world \<Rightarrow> string" where
  "todayString_of w = toDateString (localTZA w) (now2 w)"

text \<open>Step 1 of \<^verbatim>\<open>fetchDailyRecipe\<close>: the recipe of the local cache, if it is a hit.\<close>

definition checkLocalCache :: "json_lib \<Rightarrow> (string \<rightharpoonup> string) \<Rightarrow> string \<Rightarrow> json option" where
  "checkLocalCache lib ls todayString =
     (let cachedRecipeStr = ls ''daily_recipe'';
          cachedDate = ls ''daily_recipe_date''
      in case cachedRecipeStr of
           None \<Rightarrow> None
         | Some str \<Rightarrow>
             if str \<noteq> [] \<and> cachedDate = Some todayString then
               (case parse lib str of
                  None \<Rightarrow> None
                | Some parsed \<Rightarrow>
                    if truthy parsed \<and> isArray (get_field parsed ''benefits'')
                    then Some parsed else None)
             else None)"

text \<open>
  Step 2: the recipe of the shared store, if the store is configured and the lookup
  answers with a row and no error.
\<close>

definition checkSupabase :: "world \<Rightarrow> string \<Rightarrow> json option" where
  "checkSupabase w today =
     (if isSupabaseConfigured w then
        (case select_single w today of
           Answers reply \<Rightarrow>
             if data reply \<noteq> None \<and> \<not> error reply then data reply else None
         | _ \<Rightarrow> None)
      else None)"

text \<open>
  The lookup of step 2 throws inside the \<^verbatim>\<open>try\<close> block: the store is configured and
  the access to the client throws or the request rejects.
\<close>

definition store_throws :: "world \<Rightarrow> string \<Rightarrow> bool" where
  "store_throws w today =
     (isSupabaseConfigured w \<and>
      (select_single w today = ClientThrows \<or> select_single w today = RequestRejects))"

definition setLocal :: "json_lib \<Rightarrow> json \<Rightarrow> string \<Rightarrow> (string \<rightharpoonup> string) \<Rightarrow> (string \<rightharpoonup> string)" where
  "setLocal lib recipe todayString ls =
     ls(''daily_recipe'' \<mapsto> stringify lib recipe, ''daily_recipe_date'' \<mapsto> todayString)"

text \<open>
  \<^verbatim>\<open>fetchDailyRecipe\<close>, run once when the component mounts, from the initial
  component state (\<^verbatim>\<open>dailyRecipe\<close> \<^verbatim>\<open>null\<close>, \<^verbatim>\<open>isGeneratingRecipe\<close> \<^verbatim>\<open>false\<close>). \<open>generate\<close> is
  the imported \<^verbatim>\<open>generateDailyRecipe\<close>. Each request is logged when it is sent.

  A lookup that throws leaves the \<^verbatim>\<open>try\<close> block for the \<^verbatim>\<open>catch\<close> clause, which only
  logs, and the \<^verbatim>\<open>finally\<close> clause clears the flag: neither the generation call nor
  any write follows. \<^verbatim>\<open>generateDailyRecipe\<close> catches its own errors and returns
  \<^verbatim>\<open>null\<close>. The \<^verbatim>\<open>upsert\<close> is the last statement of the block and its result is dropped,
  so whether it resolves or throws into the same \<^verbatim>\<open>catch\<close>, the state is the one
  below.
\<close>

definition fetchDailyRecipe ::
    "json_lib \<Rightarrow> (json_lib \<Rightarrow> gen_response \<Rightarrow> json) \<Rightarrow> world \<Rightarrow> state" where
  "fetchDailyRecipe lib generate w =
     (let today = today_of w;
          todayString = todayString_of w;
          s0 = \<lparr>dailyRecipe = JNull, isGeneratingRecipe = False,
                storage = localStorage w, calls = []\<rparr>
      in case checkLocalCache lib (localStorage w) todayString of
           Some parsed \<Rightarrow> s0\<lparr>dailyRecipe := parsed\<rparr>
         | None \<Rightarrow>
             (let s1 = s0\<lparr>isGeneratingRecipe := True\<rparr>;
                  s2 = (if isSupabaseConfigured w \<and> select_single w today \<noteq> ClientThrows
                        then s1\<lparr>calls := calls s1 @ [SharedRead today]\<rparr> else s1)
              in if store_throws w today then s2\<lparr>isGeneratingRecipe := False\<rparr>
                 else case checkSupabase w today of
                   Some recipe \<Rightarrow>
                     s2\<lparr>dailyRecipe := recipe,
                        storage := setLocal lib recipe todayString (storage s2),
                        isGeneratingRecipe := False\<rparr>
                 | None \<Rightarrow>
                     (let recipe = generate lib (gemini w);
                          s3 = s2\<lparr>calls := calls s2 @ [Generate]\<rparr>;
                          s4 = (if truthy recipe then
                                  (let s = s3\<lparr>dailyRecipe := recipe,
                                              storage := setLocal lib recipe todayString (storage s3)\<rparr>
                                   in if isSupabaseConfigured w
                                      then s\<lparr>calls := calls s @ [SharedWrite today recipe]\<rparr>
                                      else s)
                                else s3)
                      in s4\<lparr>isGeneratingRecipe := False\<rparr>)))"

section \<open>Sample data\<close>

text \<open>
  The recipe of the specification's scenario A, a recipe-like object without
  \<^verbatim>\<open>benefits\<close>, and their JSON texts. \<open>sample_lib\<close> is \<^verbatim>\<open>JSON.parse\<close> and
  \<^verbatim>\<open>JSON.stringify\<close> cut down to these two values: the examples below run the
  pipeline with it.
\<close>

definition espeto :: json where
  "espeto = JObj [(''title'', JStr ''Espeto de Frutas''),
                  (''description'', JStr ''Frutas no palito''),
                  (''ingredients'', JArr [JStr ''morango'', JStr ''banana'']),
                  (''instructions'', JArr [JStr ''Corte as frutas'', JStr ''Monte no espeto'']),
                  (''benefits'', JArr [JStr ''Vitamina C'']),
                  (''quickTip'', JStr ''Sirva gelado'')]"

definition espeto_text :: string where
  \<open>espeto_text = ''{"title":"Espeto de Frutas","description":"Frutas no palito","ingredients":["morango","banana"],"instructions":["Corte as frutas","Monte no espeto"],"benefits":["Vitamina C"],"quickTip":"Sirva gelado"}''\<close>

definition sem_beneficios :: json where
  "sem_beneficios = JObj [(''title'', JStr ''Espeto de Frutas'')]"

definition sem_beneficios_text :: string where
  \<open>sem_beneficios_text = ''{"title":"Espeto de Frutas"}''\<close>

definition sample_lib :: json_lib where
  "sample_lib =
     \<lparr>parse = (\<lambda>s. if s = espeto_text then Some espeto
                    else if s = sem_beneficios_text then Some sem_beneficios
                    else None),
      stringify = (\<lambda>v. if v = espeto then espeto_text
                        else if v = sem_beneficios then sem_beneficios_text
                        else ''null'')\<rparr>"

text \<open>
  A device at 2026-11-03T12:00:00Z in a zone at UTC, with an empty \<^verbatim>\<open>localStorage\<close>,
  no shared store configured, and a generation service that answers with the
  recipe's text.
\<close>

definition noon :: int where
  "noon = 1793707200000"

definition fresh_device :: world where
  "fresh_device =
     \<lparr>now1 = noon, now2 = noon, localTZA = 0, localStorage = Map.empty,
      VITE_SUPABASE_URL = None, VITE_SUPABASE_ANON_KEY = None,
      select_single = (\<lambda>k. Answers \<lparr>data = None, error = True\<rparr>),
      gemini = Responds (Some espeto_text)\<rparr>"

text \<open>The same device with the shared store configured; the store has no row for any date.\<close>

definition connected_device :: world where
  "connected_device =
     fresh_device\<lparr>VITE_SUPABASE_URL := Some ''https://example.supabase.co'',
                  VITE_SUPABASE_ANON_KEY := Some ''anon-key''\<rparr>"

text \<open>The device after a resolution of the same day left the recipe in its local cache.\<close>

definition cached_device :: world where
  "cached_device =
     fresh_device\<lparr>localStorage :=
       Map.empty(''daily_recipe'' \<mapsto> espeto_text,
                 ''daily_recipe_date'' \<mapsto> ''Tue Nov 03 2026'')\<rparr>"

text \<open>The device with yesterday's entry in its local cache.\<close>

definition stale_device :: world where
  "stale_device =
     fresh_device\<lparr>localStorage :=
       Map.empty(''daily_recipe'' \<mapsto> espeto_text,
                 ''daily_recipe_date'' \<mapsto> ''Mon Nov 02 2026'')\<rparr>"

text \<open>A connected device whose shared store holds the recipe under today's key.\<close>

definition shared_device :: world where
  "shared_device =
     connected_device\<lparr>select_single :=
       (\<lambda>k. if k = ''2026-11-03'' then Answers \<lparr>data = Some espeto, error = False\<rparr>
            else Answers \<lparr>data = None, error = True\<rparr>)\<rparr>"

text \<open>The device an hour later on the same day, after a first resolution generated the recipe.\<close>

definition later_device :: world where
  "later_device =
     fresh_device\<lparr>now1 := noon + 3600000, now2 := noon + 3600000,
       localStorage := storage (fetchDailyRecipe sample_lib generateDailyRecipe fresh_device)\<rparr>"

text \<open>The device with yesterday's entry, on a day the generation service cannot be reached.\<close>

definition offline_device :: world where
  "offline_device = stale_device\<lparr>gemini := Rejects\<rparr>"


text \<open>The recipe's text as a generation service wraps it in a fenced code block.\<close>

definition fenced_espeto_text :: string where
  "fenced_espeto_text = ''```json'' @ [CHR 0x0A] @ espeto_text @ [CHR 0x0A] @ ''```''"

text \<open>
  A device whose generation service answers with the object without \<^verbatim>\<open>benefits\<close>, and
  a connected device whose shared store holds that object under every date.
\<close>

definition careless_service_device :: world where
  "careless_service_device = fresh_device\<lparr>gemini := Responds (Some sem_beneficios_text)\<rparr>"

definition careless_store_device :: world where
  "careless_store_device =
     connected_device\<lparr>select_single :=
       (\<lambda>k. Answers \<lparr>data = Some sem_beneficios, error = False\<rparr>)\<rparr>"

text \<open>
  A device whose store credentials are set to strings the client refuses: the proxy's
  \<^verbatim>\<open>createClient\<close> throws when the lookup touches \<^verbatim>\<open>supabase.from\<close>.
\<close>

definition broken_client_device :: world where
  "broken_client_device =
     fresh_device\<lparr>VITE_SUPABASE_URL := Some ''x'', VITE_SUPABASE_ANON_KEY := Some ''k'',
                  select_single := (\<lambda>k. ClientThrows)\<rparr>"


section \<open>Evaluating the samples\<close>

lemma isoDate_noon: "split_T0 (toISOString noon) = ''2026-11-03''"
  by code_simp

lemma dateString_noon: "toDateString 0 noon = ''Tue Nov 03 2026''"
  by code_simp

lemmas sample_worlds =
  fresh_device_def connected_device_def cached_device_def stale_device_def
  shared_device_def

lemma today_of_samples:
  "today_of fresh_device = ''2026-11-03''"
  "today_of connected_device = ''2026-11-03''"
  "today_of cached_device = ''2026-11-03''"
  "today_of stale_device = ''2026-11-03''"
  "today_of shared_device = ''2026-11-03''"
  by (simp_all add: today_of_def sample_worlds isoDate_noon)

lemma todayString_of_samples:
  "todayString_of fresh_device = ''Tue Nov 03 2026''"
  "todayString_of connected_device = ''Tue Nov 03 2026''"
  "todayString_of cached_device = ''Tue Nov 03 2026''"
  "todayString_of stale_device = ''Tue Nov 03 2026''"
  "todayString_of shared_device = ''Tue Nov 03 2026''"
  by (simp_all add: todayString_of_def sample_worlds dateString_noon)

lemma configured_samples:
  "\<not> isSupabaseConfigured fresh_device"
  "isSupabaseConfigured connected_device"
  "\<not> isSupabaseConfigured cached_device"
  "\<not> isSupabaseConfigured stale_device"
  "isSupabaseConfigured shared_device"
  by (simp_all add: isSupabaseConfigured_def supabaseUrl_def supabaseAnonKey_def
      or_empty_def sample_worlds)

lemma sample_texts_differ: "espeto_text \<noteq> sem_beneficios_text" "espeto \<noteq> sem_beneficios"
  by (simp_all add: espeto_text_def sem_beneficios_text_def espeto_def sem_beneficios_def)

lemma sample_lib_simps:
  "parse sample_lib espeto_text = Some espeto"
  "parse sample_lib sem_beneficios_text = Some sem_beneficios"
  "stringify sample_lib espeto = espeto_text"
  "stringify sample_lib sem_beneficios = sem_beneficios_text"
  using sample_texts_differ by (simp_all add: sample_lib_def)

lemma sample_values:
  "truthy espeto" "isArray (get_field espeto ''benefits'')"
  "truthy sem_beneficios" "\<not> isArray (get_field sem_beneficios ''benefits'')"
  "espeto_text \<noteq> []" "sem_beneficios_text \<noteq> []"
  by (simp_all add: espeto_def sem_beneficios_def espeto_text_def sem_beneficios_text_def)

lemma checkLocalCache_samples:
  "checkLocalCache sample_lib (localStorage fresh_device) ''Tue Nov 03 2026'' = None"
  "checkLocalCache sample_lib (localStorage connected_device) ''Tue Nov 03 2026'' = None"
  "checkLocalCache sample_lib (localStorage shared_device) ''Tue Nov 03 2026'' = None"
  "checkLocalCache sample_lib (localStorage stale_device) ''Tue Nov 03 2026'' = None"
  "checkLocalCache sample_lib (localStorage cached_device) ''Tue Nov 03 2026'' = Some espeto"
  by (simp_all add: checkLocalCache_def sample_worlds sample_lib_simps sample_values)

lemma checkSupabase_samples:
  "checkSupabase fresh_device ''2026-11-03'' = None"
  "checkSupabase connected_device ''2026-11-03'' = None"
  "checkSupabase cached_device ''2026-11-03'' = None"
  "checkSupabase stale_device ''2026-11-03'' = None"
  "checkSupabase shared_device ''2026-11-03'' = Some espeto"
  using configured_samples
  by (simp_all add: checkSupabase_def) (simp_all add: sample_worlds)

lemma store_throws_samples:
  "\<not> store_throws fresh_device k"
  "\<not> store_throws connected_device k"
  "\<not> store_throws cached_device k"
  "\<not> store_throws stale_device k"
  "\<not> store_throws shared_device k"
  by (simp_all add: store_throws_def sample_worlds)

section \<open>The five outcomes of a resolution\<close>

lemma fetch_local_hit:
  assumes "checkLocalCache lib (localStorage w) (todayString_of w) = Some r"
  shows "fetchDailyRecipe lib generate w =
    \<lparr>dailyRecipe = r, isGeneratingRecipe = False, storage = localStorage w, calls = []\<rparr>"
  using assms by (simp add: fetchDailyRecipe_def)

lemma checkSupabase_Some_configured:
  "checkSupabase w k = Some r \<Longrightarrow> isSupabaseConfigured w"
  by (simp add: checkSupabase_def split: if_splits)

lemma checkSupabase_Some_answered:
  assumes "checkSupabase w k = Some r"
  shows "\<not> store_throws w k" and "select_single w k \<noteq> ClientThrows"
  using assms
  by (auto simp: checkSupabase_def store_throws_def split: if_splits select_outcome.splits)

lemma not_configured_no_throw: "\<not> isSupabaseConfigured w \<Longrightarrow> \<not> store_throws w k"
  by (simp add: store_throws_def)

lemma no_throw_request_sent:
  "\<not> store_throws w k \<Longrightarrow> isSupabaseConfigured w \<Longrightarrow> select_single w k \<noteq> ClientThrows"
  by (auto simp: store_throws_def)

lemma fetch_shared_hit:
  assumes "checkLocalCache lib (localStorage w) (todayString_of w) = None"
      and "checkSupabase w (today_of w) = Some r"
  shows "fetchDailyRecipe lib generate w =
    \<lparr>dailyRecipe = r, isGeneratingRecipe = False,
     storage = setLocal lib r (todayString_of w) (localStorage w),
     calls = [SharedRead (today_of w)]\<rparr>"
  using assms checkSupabase_Some_configured [OF assms(2)]
    checkSupabase_Some_answered [OF assms(2)]
  by (simp add: fetchDailyRecipe_def)

lemma fetch_generated:
  assumes "checkLocalCache lib (localStorage w) (todayString_of w) = None"
      and "\<not> store_throws w (today_of w)"
      and "checkSupabase w (today_of w) = None"
      and "truthy (generate lib (gemini w))"
  shows "fetchDailyRecipe lib generate w =
    \<lparr>dailyRecipe = generate lib (gemini w), isGeneratingRecipe = False,
     storage = setLocal lib (generate lib (gemini w)) (todayString_of w) (localStorage w),
     calls = (if isSupabaseConfigured w
              then [SharedRead (today_of w), Generate,
                    SharedWrite (today_of w) (generate lib (gemini w))]
              else [Generate])\<rparr>"
  using assms no_throw_request_sent [OF assms(2)]
  by (simp add: fetchDailyRecipe_def Let_def)

lemma fetch_failed:
  assumes "checkLocalCache lib (localStorage w) (todayString_of w) = None"
      and "\<not> store_throws w (today_of w)"
      and "checkSupabase w (today_of w) = None"
      and "\<not> truthy (generate lib (gemini w))"
  shows "fetchDailyRecipe lib generate w =
    \<lparr>dailyRecipe = JNull, isGeneratingRecipe = False, storage = localStorage w,
     calls = (if isSupabaseConfigured w then [SharedRead (today_of w), Generate]
              else [Generate])\<rparr>"
  using assms no_throw_request_sent [OF assms(2)]
  by (simp add: fetchDailyRecipe_def Let_def)

text \<open>The lookup throws: the resolution ends in the \<^verbatim>\<open>catch\<close> clause.\<close>

lemma fetch_caught:
  assumes "checkLocalCache lib (localStorage w) (todayString_of w) = None"
      and "store_throws w (today_of w)"
  shows "fetchDailyRecipe lib generate w =
    \<lparr>dailyRecipe = JNull, isGeneratingRecipe = False, storage = localStorage w,
     calls = (if select_single w (today_of w) = ClientThrows then []
              else [SharedRead (today_of w)])\<rparr>"
  using assms by (auto simp: fetchDailyRecipe_def Let_def store_throws_def)

text \<open>The local stage misses exactly when the entry is absent, stale or malformed.\<close>

lemma checkLocalCache_None_iff:
  "checkLocalCache lib ls t = None \<longleftrightarrow>
     (ls ''daily_recipe'' = None \<or> ls ''daily_recipe'' = Some [])
     \<or> ls ''daily_recipe_date'' \<noteq> Some t
     \<or> (\<exists>s. ls ''daily_recipe'' = Some s \<and>
           (parse lib s = None \<or>
            (\<exists>v. parse lib s = Some v \<and>
                 (\<not> truthy v \<or> \<not> isArray (get_field v ''benefits'')))))"
  by (auto simp: checkLocalCache_def split: option.splits)

text \<open>
  The shared stage yields no recipe exactly when the store is not configured, the
  lookup throws, or it answers without a row or with an error.
\<close>

lemma checkSupabase_None_iff:
  "checkSupabase w k = None \<longleftrightarrow>
     \<not> isSupabaseConfigured w \<or> store_throws w k
     \<or> (\<exists>reply. select_single w k = Answers reply \<and> (data reply = None \<or> error reply))"
  by (cases "select_single w k") (auto simp: checkSupabase_def store_throws_def)

lemma generate_called_iff:
  "Generate \<in> set (calls (fetchDailyRecipe lib generate w)) \<longleftrightarrow>
     checkLocalCache lib (localStorage w) (todayString_of w) = None \<and>
     \<not> store_throws w (today_of w) \<and>
     checkSupabase w (today_of w) = None"
proof (cases "checkLocalCache lib (localStorage w) (todayString_of w)")
  case (Some r)
  then show ?thesis by (simp add: fetch_local_hit)
next
  case None
  show ?thesis
  proof (cases "store_throws w (today_of w)")
    case True
    with None show ?thesis by (simp add: fetch_caught)
  next
    case no_throw: False
    show ?thesis
    proof (cases "checkSupabase w (today_of w)")
      case (Some r)
      with None no_throw show ?thesis by (simp add: fetch_shared_hit)
    next
      case no_row: None
      show ?thesis
      proof (cases "truthy (generate lib (gemini w))")
        case True
        with None no_throw no_row show ?thesis by (simp add: fetch_generated)
      next
        case False
        with None no_throw no_row show ?thesis by (simp add: fetch_failed)
      qed
    qed
  qed
qed

section \<open>Order of the fallback chain\<close>

text \<open>
  C1, as the code has it. In a resolution whose shared-store lookup does not throw,
  the generation service is called if and only if the local stage misses (the entry
  is absent or empty, its tag is not today's, or its text does not parse to a truthy
  value with an array \<^verbatim>\<open>benefits\<close>) and the shared stage misses or is unavailable (the
  store is not configured, or it answers without a row or with an error). On a local
  hit the pipeline exposes the cached recipe and sends no request at all; on a shared
  hit it exposes the stored recipe and its only request is the lookup.
\<close>

theorem generation_iff_both_caches_miss:
  "(\<not> store_throws w (today_of w) \<longrightarrow>
      (Generate \<in> set (calls (fetchDailyRecipe lib generate w)) \<longleftrightarrow>
        ((localStorage w ''daily_recipe'' = None \<or> localStorage w ''daily_recipe'' = Some [])
         \<or> localStorage w ''daily_recipe_date'' \<noteq> Some (todayString_of w)
         \<or> (\<exists>s. localStorage w ''daily_recipe'' = Some s \<and>
               (parse lib s = None \<or>
                (\<exists>v. parse lib s = Some v \<and>
                     (\<not> truthy v \<or> \<not> isArray (get_field v ''benefits''))))))
        \<and> (\<not> isSupabaseConfigured w
             \<or> (\<exists>reply. select_single w (today_of w) = Answers reply \<and>
                   (data reply = None \<or> error reply)))))
   \<and> (\<forall>r. checkLocalCache lib (localStorage w) (todayString_of w) = Some r \<longrightarrow>
          dailyRecipe (fetchDailyRecipe lib generate w) = r \<and>
          calls (fetchDailyRecipe lib generate w) = [])
   \<and> (\<forall>r. checkLocalCache lib (localStorage w) (todayString_of w) = None \<and>
          checkSupabase w (today_of w) = Some r \<longrightarrow>
          dailyRecipe (fetchDailyRecipe lib generate w) = r \<and>
          calls (fetchDailyRecipe lib generate w) = [SharedRead (today_of w)])"
proof (intro conjI allI impI)
  assume no_throw: "\<not> store_throws w (today_of w)"
  then have "checkSupabase w (today_of w) = None \<longleftrightarrow>
      \<not> isSupabaseConfigured w
      \<or> (\<exists>reply. select_single w (today_of w) = Answers reply \<and>
            (data reply = None \<or> error reply))"
    by (simp add: checkSupabase_None_iff)
  with no_throw show "Generate \<in> set (calls (fetchDailyRecipe lib generate w)) \<longleftrightarrow>
        ((localStorage w ''daily_recipe'' = None \<or> localStorage w ''daily_recipe'' = Some [])
         \<or> localStorage w ''daily_recipe_date'' \<noteq> Some (todayString_of w)
         \<or> (\<exists>s. localStorage w ''daily_recipe'' = Some s \<and>
               (parse lib s = None \<or>
                (\<exists>v. parse lib s = Some v \<and>
                     (\<not> truthy v \<or> \<not> isArray (get_field v ''benefits''))))))
        \<and> (\<not> isSupabaseConfigured w
             \<or> (\<exists>reply. select_single w (today_of w) = Answers reply \<and>
                   (data reply = None \<or> error reply)))"
    by (simp only: generate_called_iff checkLocalCache_None_iff simp_thms)
next
  fix r assume "checkLocalCache lib (localStorage w) (todayString_of w) = Some r"
  then show "dailyRecipe (fetchDailyRecipe lib generate w) = r"
    and "calls (fetchDailyRecipe lib generate w) = []"
    by (simp_all add: fetch_local_hit)
next
  fix r
  assume "checkLocalCache lib (localStorage w) (todayString_of w) = None \<and>
          checkSupabase w (today_of w) = Some r"
  then show "dailyRecipe (fetchDailyRecipe lib generate w) = r"
    and "calls (fetchDailyRecipe lib generate w) = [SharedRead (today_of w)]"
    by (simp_all add: fetch_shared_hit)
qed

theorem generation_iff_both_caches_miss_witness:
  "Generate \<in> set (calls (fetchDailyRecipe sample_lib generateDailyRecipe fresh_device))
   \<and> Generate \<in> set (calls (fetchDailyRecipe sample_lib generateDailyRecipe connected_device))
   \<and> dailyRecipe (fetchDailyRecipe sample_lib generateDailyRecipe cached_device) = espeto
   \<and> calls (fetchDailyRecipe sample_lib generateDailyRecipe cached_device) = []
   \<and> dailyRecipe (fetchDailyRecipe sample_lib generateDailyRecipe shared_device) = espeto
   \<and> calls (fetchDailyRecipe sample_lib generateDailyRecipe shared_device)
       = [SharedRead ''2026-11-03'']"
proof -
  have absent: "localStorage fresh_device ''daily_recipe'' = None"
    "localStorage connected_device ''daily_recipe'' = None"
    by (simp_all add: fresh_device_def connected_device_def)
  have no_row: "select_single connected_device ''2026-11-03''
                = Answers \<lparr>data = None, error = True\<rparr>"
    by (simp add: fresh_device_def connected_device_def)
  show ?thesis
    using generation_iff_both_caches_miss [of fresh_device sample_lib generateDailyRecipe]
      generation_iff_both_caches_miss [of connected_device sample_lib generateDailyRecipe]
      generation_iff_both_caches_miss [of cached_device sample_lib generateDailyRecipe]
      generation_iff_both_caches_miss [of shared_device sample_lib generateDailyRecipe]
    by (simp add: absent no_row configured_samples store_throws_samples today_of_samples
        todayString_of_samples checkLocalCache_samples checkSupabase_samples)
qed

lemma broken_client_device_facts:
  "todayString_of broken_client_device = ''Tue Nov 03 2026''"
  "today_of broken_client_device = ''2026-11-03''"
  "localStorage broken_client_device = localStorage fresh_device"
  "isSupabaseConfigured broken_client_device"
  "select_single broken_client_device k = ClientThrows"
  "store_throws broken_client_device k"
proof -
  show "todayString_of broken_client_device = ''Tue Nov 03 2026''"
    using todayString_of_samples(1) by (simp add: todayString_of_def broken_client_device_def)
  show "today_of broken_client_device = ''2026-11-03''"
    using today_of_samples(1) by (simp add: today_of_def broken_client_device_def)
  show "localStorage broken_client_device = localStorage fresh_device"
    by (simp add: broken_client_device_def)
  show conf: "isSupabaseConfigured broken_client_device"
    by (simp add: isSupabaseConfigured_def supabaseUrl_def supabaseAnonKey_def or_empty_def
        broken_client_device_def)
  show thrown: "select_single broken_client_device k = ClientThrows"
    by (simp add: broken_client_device_def)
  from conf thrown show "store_throws broken_client_device k"
    by (simp add: store_throws_def)
qed

text \<open>
  C1 as stated fails where the shared stage is unavailable because the lookup
  throws. With the local cache empty, both credentials set and a client that refuses
  them, \<^verbatim>\<open>supabase.from\<close> throws inside the \<^verbatim>\<open>try\<close> block: no request is sent, the
  generation service is not called, and the resolution ends with no recipe.
\<close>

theorem thrown_lookup_skips_generation:
  "checkLocalCache sample_lib (localStorage broken_client_device)
     (todayString_of broken_client_device) = None
   \<and> checkSupabase broken_client_device (today_of broken_client_device) = None
   \<and> select_single broken_client_device (today_of broken_client_device) = ClientThrows
   \<and> Generate \<notin> set (calls (fetchDailyRecipe sample_lib generateDailyRecipe
                               broken_client_device))
   \<and> fetchDailyRecipe sample_lib generateDailyRecipe broken_client_device =
       \<lparr>dailyRecipe = JNull, isGeneratingRecipe = False,
        storage = localStorage broken_client_device, calls = []\<rparr>"
proof -
  have miss: "checkLocalCache sample_lib (localStorage broken_client_device)
     (todayString_of broken_client_device) = None"
    by (simp only: broken_client_device_facts checkLocalCache_samples)
  have no_row: "checkSupabase broken_client_device (today_of broken_client_device) = None"
    by (simp add: checkSupabase_def broken_client_device_facts)
  have "fetchDailyRecipe sample_lib generateDailyRecipe broken_client_device =
       \<lparr>dailyRecipe = JNull, isGeneratingRecipe = False,
        storage = localStorage broken_client_device, calls = []\<rparr>"
    using fetch_caught [OF miss broken_client_device_facts(6), of generateDailyRecipe]
    by (simp add: broken_client_device_facts(5))
  with miss no_row show ?thesis
    by (simp add: broken_client_device_facts(5))
qed

section \<open>The sample devices resolved\<close>

lemma generate_espeto:
  "generateDailyRecipe sample_lib (Responds (Some espeto_text)) = espeto"
proof -
  have "trim espeto_text = espeto_text" by code_simp
  moreover have "\<not> str_includes espeto_text ''```''" by code_simp
  ultimately show ?thesis
    by (simp add: generateDailyRecipe_def sample_lib_simps sample_values)
qed

lemma fetch_fresh_device:
  "fetchDailyRecipe sample_lib generateDailyRecipe fresh_device =
     \<lparr>dailyRecipe = espeto, isGeneratingRecipe = False,
      storage = setLocal sample_lib espeto ''Tue Nov 03 2026'' Map.empty,
      calls = [Generate]\<rparr>"
proof -
  have g: "generateDailyRecipe sample_lib (gemini fresh_device) = espeto"
    by (simp add: fresh_device_def generate_espeto)
  have "fetchDailyRecipe sample_lib generateDailyRecipe fresh_device =
     \<lparr>dailyRecipe = espeto, isGeneratingRecipe = False,
      storage = setLocal sample_lib espeto ''Tue Nov 03 2026'' (localStorage fresh_device),
      calls = [Generate]\<rparr>"
    using fetch_generated [of sample_lib fresh_device generateDailyRecipe]
    by (simp add: g today_of_samples todayString_of_samples checkLocalCache_samples
        checkSupabase_samples configured_samples store_throws_samples sample_values)
  then show ?thesis by (simp add: fresh_device_def)
qed

lemma todayString_of_later: "todayString_of later_device = ''Tue Nov 03 2026''"
proof -
  have "toDateString 0 (noon + 3600000) = ''Tue Nov 03 2026''" by code_simp
  then show ?thesis by (simp add: todayString_of_def later_device_def fresh_device_def)
qed

lemma offline_device_facts:
  "todayString_of offline_device = ''Tue Nov 03 2026''"
  "today_of offline_device = ''2026-11-03''"
  "checkLocalCache sample_lib (localStorage offline_device) ''Tue Nov 03 2026'' = None"
  "checkSupabase offline_device ''2026-11-03'' = None"
  "\<not> store_throws offline_device ''2026-11-03''"
proof -
  show "todayString_of offline_device = ''Tue Nov 03 2026''"
    using todayString_of_samples(4) by (simp add: todayString_of_def offline_device_def)
  show "today_of offline_device = ''2026-11-03''"
    using today_of_samples(4) by (simp add: today_of_def offline_device_def)
  show "checkLocalCache sample_lib (localStorage offline_device) ''Tue Nov 03 2026'' = None"
    using checkLocalCache_samples(4) by (simp add: offline_device_def)
  have off: "\<not> isSupabaseConfigured offline_device"
    using configured_samples(4)
    by (auto simp: isSupabaseConfigured_def supabaseUrl_def supabaseAnonKey_def
        offline_device_def)
  then show "checkSupabase offline_device ''2026-11-03'' = None"
    by (simp add: checkSupabase_def)
  from off show "\<not> store_throws offline_device ''2026-11-03''"
    by (rule not_configured_no_throw)
qed

section \<open>Shared-cache hit\<close>

text \<open>
  C5. When the local stage misses and the configured shared store answers the lookup
  under today's date key with a row and no error, the pipeline exposes exactly the
  stored recipe, its only request is that lookup, and when it ends the local cache
  holds the serialised recipe under \<^verbatim>\<open>daily_recipe\<close> and today's freshness tag under
  \<^verbatim>\<open>daily_recipe_date\<close>; for a well-formed recipe that survives serialisation, the
  local stage then hits with the same recipe.
\<close>

theorem shared_hit_backfills_local:
  assumes miss: "checkLocalCache lib (localStorage w) (todayString_of w) = None"
      and conf: "isSupabaseConfigured w"
      and row: "select_single w (today_of w) = Answers \<lparr>data = Some r, error = False\<rparr>"
  shows "dailyRecipe (fetchDailyRecipe lib generate w) = r
       \<and> calls (fetchDailyRecipe lib generate w) = [SharedRead (today_of w)]
       \<and> isGeneratingRecipe (fetchDailyRecipe lib generate w) = False
       \<and> storage (fetchDailyRecipe lib generate w) ''daily_recipe'' = Some (stringify lib r)
       \<and> storage (fetchDailyRecipe lib generate w) ''daily_recipe_date''
           = Some (todayString_of w)
       \<and> (stringify lib r \<noteq> [] \<and> parse lib (stringify lib r) = Some r \<and> truthy r
            \<and> isArray (get_field r ''benefits'') \<longrightarrow>
           checkLocalCache lib (storage (fetchDailyRecipe lib generate w)) (todayString_of w)
             = Some r)"
proof -
  from conf row have "checkSupabase w (today_of w) = Some r"
    by (simp add: checkSupabase_def)
  with miss have "fetchDailyRecipe lib generate w =
    \<lparr>dailyRecipe = r, isGeneratingRecipe = False,
     storage = setLocal lib r (todayString_of w) (localStorage w),
     calls = [SharedRead (today_of w)]\<rparr>"
    by (rule fetch_shared_hit)
  then show ?thesis
    by (simp add: setLocal_def checkLocalCache_def)
qed

theorem shared_hit_backfills_local_witness:
  "dailyRecipe (fetchDailyRecipe sample_lib generateDailyRecipe shared_device) = espeto
   \<and> calls (fetchDailyRecipe sample_lib generateDailyRecipe shared_device)
       = [SharedRead ''2026-11-03'']
   \<and> storage (fetchDailyRecipe sample_lib generateDailyRecipe shared_device) ''daily_recipe''
       = Some espeto_text
   \<and> storage (fetchDailyRecipe sample_lib generateDailyRecipe shared_device)
        ''daily_recipe_date'' = Some ''Tue Nov 03 2026''
   \<and> checkLocalCache sample_lib
        (storage (fetchDailyRecipe sample_lib generateDailyRecipe shared_device))
        ''Tue Nov 03 2026'' = Some espeto"
proof -
  have row: "select_single shared_device (today_of shared_device)
             = Answers \<lparr>data = Some espeto, error = False\<rparr>"
    by (simp add: today_of_samples) (simp add: shared_device_def)
  have miss: "checkLocalCache sample_lib (localStorage shared_device)
                (todayString_of shared_device) = None"
    by (simp add: todayString_of_samples checkLocalCache_samples)
  show ?thesis
    using shared_hit_backfills_local [OF miss configured_samples(5) row,
        of generateDailyRecipe]
    by (simp add: today_of_samples todayString_of_samples sample_lib_simps sample_values)
qed

section \<open>Same-day second resolution\<close>

text \<open>
  C6. Take two resolutions on the same calendar date (the second computes the same
  freshness tag), the second starting from the \<^verbatim>\<open>localStorage\<close> the first left. If
  the first left a non-empty entry that parses to a well-formed recipe and is tagged
  with that date, the second exposes that recipe, sends no request at all (no
  shared-store read, no shared-store write, no generation call) and leaves the
  storage as it was. The recipe is the one the first resolution exposed, provided
  that recipe survives serialisation.
\<close>

theorem second_resolution_same_day:
  assumes handed: "localStorage w2 = storage (fetchDailyRecipe lib generate w1)"
      and same_day: "todayString_of w2 = todayString_of w1"
      and blob: "storage (fetchDailyRecipe lib generate w1) ''daily_recipe'' = Some s"
      and nonempty: "s \<noteq> []"
      and tag: "storage (fetchDailyRecipe lib generate w1) ''daily_recipe_date''
                = Some (todayString_of w1)"
      and parsed: "parse lib s = Some r"
      and valid: "truthy r" "isArray (get_field r ''benefits'')"
  shows "fetchDailyRecipe lib generate w2 =
           \<lparr>dailyRecipe = r, isGeneratingRecipe = False,
            storage = localStorage w2, calls = []\<rparr>
       \<and> (parse lib (stringify lib (dailyRecipe (fetchDailyRecipe lib generate w1)))
             = Some (dailyRecipe (fetchDailyRecipe lib generate w1)) \<longrightarrow>
          dailyRecipe (fetchDailyRecipe lib generate w1) = r)"
proof
  have hit: "checkLocalCache lib (storage (fetchDailyRecipe lib generate w1))
               (todayString_of w1) = Some r"
    using blob nonempty tag parsed valid by (simp add: checkLocalCache_def)
  then show "fetchDailyRecipe lib generate w2 =
           \<lparr>dailyRecipe = r, isGeneratingRecipe = False,
            storage = localStorage w2, calls = []\<rparr>"
    using handed same_day by (simp add: fetch_local_hit)
  show "parse lib (stringify lib (dailyRecipe (fetchDailyRecipe lib generate w1)))
             = Some (dailyRecipe (fetchDailyRecipe lib generate w1)) \<longrightarrow>
          dailyRecipe (fetchDailyRecipe lib generate w1) = r"
  proof
    assume rt: "parse lib (stringify lib (dailyRecipe (fetchDailyRecipe lib generate w1)))
             = Some (dailyRecipe (fetchDailyRecipe lib generate w1))"
    show "dailyRecipe (fetchDailyRecipe lib generate w1) = r"
    proof (cases "checkLocalCache lib (localStorage w1) (todayString_of w1)")
      case (Some r1)
      then have "fetchDailyRecipe lib generate w1 =
        \<lparr>dailyRecipe = r1, isGeneratingRecipe = False, storage = localStorage w1, calls = []\<rparr>"
        by (rule fetch_local_hit)
      with hit Some show ?thesis by simp
    next
      case None
      show ?thesis
      proof (cases "store_throws w1 (today_of w1)")
        case True
        with None hit show ?thesis by (simp add: fetch_caught)
      next
        case no_throw: False
        show ?thesis
        proof (cases "checkSupabase w1 (today_of w1)")
          case (Some r1)
          with None have "fetchDailyRecipe lib generate w1 =
            \<lparr>dailyRecipe = r1, isGeneratingRecipe = False,
             storage = setLocal lib r1 (todayString_of w1) (localStorage w1),
             calls = [SharedRead (today_of w1)]\<rparr>"
            by (rule fetch_shared_hit)
          with blob parsed rt show ?thesis by (simp add: setLocal_def)
        next
          case no_row: None
          show ?thesis
          proof (cases "truthy (generate lib (gemini w1))")
            case True
            with None no_throw no_row blob parsed rt show ?thesis
              by (simp add: fetch_generated setLocal_def)
          next
            case False
            with None no_throw no_row hit show ?thesis
              by (simp add: fetch_failed)
          qed
        qed
      qed
    qed
  qed
qed

theorem second_resolution_same_day_witness:
  "fetchDailyRecipe sample_lib generateDailyRecipe later_device =
     \<lparr>dailyRecipe = espeto, isGeneratingRecipe = False,
      storage = localStorage later_device, calls = []\<rparr>
   \<and> dailyRecipe (fetchDailyRecipe sample_lib generateDailyRecipe fresh_device) = espeto"
proof -
  have handed: "localStorage later_device
                = storage (fetchDailyRecipe sample_lib generateDailyRecipe fresh_device)"
    by (simp add: later_device_def)
  have same_day: "todayString_of later_device = todayString_of fresh_device"
    by (simp add: todayString_of_later todayString_of_samples)
  have blob: "storage (fetchDailyRecipe sample_lib generateDailyRecipe fresh_device)
                ''daily_recipe'' = Some espeto_text"
    by (simp add: fetch_fresh_device setLocal_def sample_lib_simps)
  have tag: "storage (fetchDailyRecipe sample_lib generateDailyRecipe fresh_device)
               ''daily_recipe_date'' = Some (todayString_of fresh_device)"
    by (simp add: fetch_fresh_device setLocal_def todayString_of_samples)
  show ?thesis
    using second_resolution_same_day [OF handed same_day blob sample_values(5) tag
        sample_lib_simps(1) sample_values(1) sample_values(2)]
    by (simp add: fetch_fresh_device sample_lib_simps)
qed

section \<open>Stale local entries\<close>

text \<open>What a resolution exposes and requests once the local stage has missed.\<close>

lemma fetch_after_local_miss:
  assumes "checkLocalCache lib (localStorage w) (todayString_of w) = None"
  shows "dailyRecipe (fetchDailyRecipe lib generate w) =
           (if store_throws w (today_of w) then JNull
            else case checkSupabase w (today_of w) of
                   Some r \<Rightarrow> r
                 | None \<Rightarrow> if truthy (generate lib (gemini w)) then generate lib (gemini w)
                           else JNull)"
    and "calls (fetchDailyRecipe lib generate w) =
           (if store_throws w (today_of w)
            then (if select_single w (today_of w) = ClientThrows then []
                  else [SharedRead (today_of w)])
            else case checkSupabase w (today_of w) of
                   Some r \<Rightarrow> [SharedRead (today_of w)]
                 | None \<Rightarrow>
                     (if isSupabaseConfigured w then [SharedRead (today_of w)] else [])
                     @ [Generate]
                     @ (if isSupabaseConfigured w \<and> truthy (generate lib (gemini w))
                        then [SharedWrite (today_of w) (generate lib (gemini w))] else []))"
proof -
  show "dailyRecipe (fetchDailyRecipe lib generate w) =
           (if store_throws w (today_of w) then JNull
            else case checkSupabase w (today_of w) of
                   Some r \<Rightarrow> r
                 | None \<Rightarrow> if truthy (generate lib (gemini w)) then generate lib (gemini w)
                           else JNull)"
    using assms
    by (cases "store_throws w (today_of w)"; cases "checkSupabase w (today_of w)";
        cases "truthy (generate lib (gemini w))")
      (simp_all add: fetch_caught fetch_shared_hit fetch_generated fetch_failed)
  show "calls (fetchDailyRecipe lib generate w) =
           (if store_throws w (today_of w)
            then (if select_single w (today_of w) = ClientThrows then []
                  else [SharedRead (today_of w)])
            else case checkSupabase w (today_of w) of
                   Some r \<Rightarrow> [SharedRead (today_of w)]
                 | None \<Rightarrow>
                     (if isSupabaseConfigured w then [SharedRead (today_of w)] else [])
                     @ [Generate]
                     @ (if isSupabaseConfigured w \<and> truthy (generate lib (gemini w))
                        then [SharedWrite (today_of w) (generate lib (gemini w))] else []))"
    using assms
    by (cases "store_throws w (today_of w)"; cases "checkSupabase w (today_of w)";
        cases "truthy (generate lib (gemini w))")
      (simp_all add: fetch_caught fetch_shared_hit fetch_generated fetch_failed)
qed

lemma stale_tag_misses:
  "ls ''daily_recipe_date'' \<noteq> Some t \<Longrightarrow> checkLocalCache lib ls t = None"
  by (simp add: checkLocalCache_def split: option.splits)

text \<open>
  C7. A local entry whose stored freshness tag is not string-equal to today's tag is
  a miss of the local stage, whatever the entry holds: what the pipeline exposes and
  which requests it sends do not depend on the stored recipe text.
\<close>

theorem stale_entry_is_never_a_hit:
  assumes stale: "localStorage w ''daily_recipe_date'' \<noteq> Some (todayString_of w)"
  shows "checkLocalCache lib (localStorage w) (todayString_of w) = None
       \<and> (\<forall>blob.
            dailyRecipe (fetchDailyRecipe lib generate
                (w\<lparr>localStorage := (localStorage w)(''daily_recipe'' := blob)\<rparr>))
              = dailyRecipe (fetchDailyRecipe lib generate w)
          \<and> calls (fetchDailyRecipe lib generate
                (w\<lparr>localStorage := (localStorage w)(''daily_recipe'' := blob)\<rparr>))
              = calls (fetchDailyRecipe lib generate w))"
proof (intro conjI allI)
  show miss: "checkLocalCache lib (localStorage w) (todayString_of w) = None"
    using stale by (rule stale_tag_misses)
  fix blob
  let ?w' = "w\<lparr>localStorage := (localStorage w)(''daily_recipe'' := blob)\<rparr>"
  have same: "todayString_of ?w' = todayString_of w" "today_of ?w' = today_of w"
    "isSupabaseConfigured ?w' = isSupabaseConfigured w" "gemini ?w' = gemini w"
    "checkSupabase ?w' = checkSupabase w" "select_single ?w' = select_single w"
    "store_throws ?w' = store_throws w"
    by (simp_all add: todayString_of_def today_of_def isSupabaseConfigured_def
        supabaseUrl_def supabaseAnonKey_def checkSupabase_def store_throws_def fun_eq_iff)
  have "localStorage ?w' ''daily_recipe_date'' \<noteq> Some (todayString_of ?w')"
    using stale by (simp add: same)
  then have miss': "checkLocalCache lib (localStorage ?w') (todayString_of ?w') = None"
    by (rule stale_tag_misses)
  show "dailyRecipe (fetchDailyRecipe lib generate ?w')
          = dailyRecipe (fetchDailyRecipe lib generate w)"
    by (simp only: fetch_after_local_miss(1) [OF miss] fetch_after_local_miss(1) [OF miss']
        same)
  show "calls (fetchDailyRecipe lib generate ?w') = calls (fetchDailyRecipe lib generate w)"
    by (simp only: fetch_after_local_miss(2) [OF miss] fetch_after_local_miss(2) [OF miss']
        same)
qed

theorem stale_entry_is_never_a_hit_witness:
  "localStorage stale_device ''daily_recipe_date'' = Some ''Mon Nov 02 2026''
   \<and> todayString_of stale_device = ''Tue Nov 03 2026''
   \<and> checkLocalCache sample_lib (localStorage stale_device) ''Tue Nov 03 2026'' = None
   \<and> dailyRecipe (fetchDailyRecipe sample_lib generateDailyRecipe
        (stale_device\<lparr>localStorage := (localStorage stale_device)(''daily_recipe'' := None)\<rparr>))
      = dailyRecipe (fetchDailyRecipe sample_lib generateDailyRecipe stale_device)"
proof -
  have stale: "localStorage stale_device ''daily_recipe_date''
               \<noteq> Some (todayString_of stale_device)"
    by (simp add: todayString_of_samples) (simp add: stale_device_def)
  have "localStorage stale_device ''daily_recipe_date'' = Some ''Mon Nov 02 2026''"
    by (simp add: stale_device_def)
  then show ?thesis
    using stale_entry_is_never_a_hit [OF stale, of sample_lib generateDailyRecipe]
    by (simp add: todayString_of_samples)
qed

section \<open>Unconfigured shared store\<close>

lemma not_configured_iff:
  "\<not> isSupabaseConfigured w \<longleftrightarrow>
     VITE_SUPABASE_URL w = None \<or> VITE_SUPABASE_URL w = Some []
     \<or> VITE_SUPABASE_ANON_KEY w = None \<or> VITE_SUPABASE_ANON_KEY w = Some []"
  by (auto simp: isSupabaseConfigured_def supabaseUrl_def supabaseAnonKey_def or_empty_def
      split: option.splits)

lemma checkSupabase_unconfigured:
  "\<not> isSupabaseConfigured w \<Longrightarrow> checkSupabase w k = None"
  by (simp add: checkSupabase_def)

text \<open>
  C8. When a credential of the shared store is absent or empty, a resolution sends
  the store no request, neither a lookup nor a write: the only request it can send
  is the generation call, and after a local miss that call is all it sends. The
  client accessor \<^verbatim>\<open>getSupabase\<close> returns \<^verbatim>\<open>null\<close> and creates no client, and the
  exported proxy throws on access.
\<close>

theorem unconfigured_store_is_never_called:
  assumes absent: "VITE_SUPABASE_URL w = None \<or> VITE_SUPABASE_URL w = Some []
                   \<or> VITE_SUPABASE_ANON_KEY w = None \<or> VITE_SUPABASE_ANON_KEY w = Some []"
  shows "(\<forall>k. SharedRead k \<notin> set (calls (fetchDailyRecipe lib generate w)))
       \<and> (\<forall>k r. SharedWrite k r \<notin> set (calls (fetchDailyRecipe lib generate w)))
       \<and> (checkLocalCache lib (localStorage w) (todayString_of w) = None \<longrightarrow>
            calls (fetchDailyRecipe lib generate w) = [Generate])
       \<and> getSupabase createClient w client = (None, client)
       \<and> supabase_get createClient w client = (Inl NotConfigured, client)"
proof -
  from absent have off: "\<not> isSupabaseConfigured w"
    by (simp add: not_configured_iff)
  then have no_row: "checkSupabase w (today_of w) = None"
    by (rule checkSupabase_unconfigured)
  from off have no_throw: "\<not> store_throws w (today_of w)"
    by (rule not_configured_no_throw)
  have after_miss: "checkLocalCache lib (localStorage w) (todayString_of w) = None \<longrightarrow>
            calls (fetchDailyRecipe lib generate w) = [Generate]"
    using off no_row no_throw by (simp add: fetch_after_local_miss(2))
  have calls: "calls (fetchDailyRecipe lib generate w) = []
             \<or> calls (fetchDailyRecipe lib generate w) = [Generate]"
  proof (cases "checkLocalCache lib (localStorage w) (todayString_of w)")
    case (Some r)
    then show ?thesis by (simp add: fetch_local_hit)
  next
    case None
    with after_miss show ?thesis by simp
  qed
  have client: "getSupabase createClient w client = (None, client)"
    using off by (simp add: getSupabase_def)
  then have "supabase_get createClient w client = (Inl NotConfigured, client)"
    by (simp add: supabase_get_def)
  with calls after_miss client show ?thesis by auto
qed

theorem unconfigured_store_is_never_called_witness:
  "VITE_SUPABASE_URL fresh_device = None
   \<and> calls (fetchDailyRecipe sample_lib generateDailyRecipe fresh_device) = [Generate]
   \<and> SharedRead ''2026-11-03''
        \<notin> set (calls (fetchDailyRecipe sample_lib generateDailyRecipe fresh_device))
   \<and> SharedWrite ''2026-11-03'' espeto
        \<notin> set (calls (fetchDailyRecipe sample_lib generateDailyRecipe fresh_device))
   \<and> getSupabase (\<lambda>url key. (url, key)) fresh_device None = (None, None)"
proof -
  have absent: "VITE_SUPABASE_URL fresh_device = None \<or> VITE_SUPABASE_URL fresh_device = Some []
     \<or> VITE_SUPABASE_ANON_KEY fresh_device = None
     \<or> VITE_SUPABASE_ANON_KEY fresh_device = Some []"
    by (simp add: fresh_device_def)
  have url: "VITE_SUPABASE_URL fresh_device = None"
    by (simp add: fresh_device_def)
  show ?thesis
    using unconfigured_store_is_never_called [OF absent,
        of sample_lib generateDailyRecipe "\<lambda>url key. (url, key)" None]
    by (simp add: url todayString_of_samples checkLocalCache_samples)
qed

section \<open>Failed generation\<close>

text \<open>
  C10. When both cache stages miss and \<^verbatim>\<open>generateDailyRecipe\<close> returns \<^verbatim>\<open>null\<close> (or any
  falsy value), the resolution leaves \<^verbatim>\<open>localStorage\<close> exactly as it found it, both
  the recipe text and the freshness tag, and ends with \<^verbatim>\<open>dailyRecipe\<close> \<^verbatim>\<open>null\<close> and
  \<^verbatim>\<open>isGeneratingRecipe\<close> \<^verbatim>\<open>false\<close>. A resolution that changes \<^verbatim>\<open>localStorage\<close> missed
  locally and then either hit the shared cache or generated a truthy recipe.
\<close>

theorem failed_generation_leaves_local_storage:
  "(checkLocalCache lib (localStorage w) (todayString_of w) = None
      \<and> checkSupabase w (today_of w) = None
      \<and> \<not> truthy (generate lib (gemini w)) \<longrightarrow>
        storage (fetchDailyRecipe lib generate w) = localStorage w
      \<and> dailyRecipe (fetchDailyRecipe lib generate w) = JNull
      \<and> isGeneratingRecipe (fetchDailyRecipe lib generate w) = False)
   \<and> (storage (fetchDailyRecipe lib generate w) \<noteq> localStorage w \<longrightarrow>
        checkLocalCache lib (localStorage w) (todayString_of w) = None
      \<and> ((\<exists>r. checkSupabase w (today_of w) = Some r)
          \<or> (checkSupabase w (today_of w) = None \<and> truthy (generate lib (gemini w)))))"
proof (intro conjI impI)
  assume failed: "checkLocalCache lib (localStorage w) (todayString_of w) = None
      \<and> checkSupabase w (today_of w) = None \<and> \<not> truthy (generate lib (gemini w))"
  then show "storage (fetchDailyRecipe lib generate w) = localStorage w"
    and "dailyRecipe (fetchDailyRecipe lib generate w) = JNull"
    and "isGeneratingRecipe (fetchDailyRecipe lib generate w) = False"
    by (cases "store_throws w (today_of w)"; simp add: fetch_caught fetch_failed)+
next
  assume changed: "storage (fetchDailyRecipe lib generate w) \<noteq> localStorage w"
  show miss: "checkLocalCache lib (localStorage w) (todayString_of w) = None"
  proof (rule ccontr)
    assume "checkLocalCache lib (localStorage w) (todayString_of w) \<noteq> None"
    then obtain r where "checkLocalCache lib (localStorage w) (todayString_of w) = Some r"
      by auto
    with changed show False by (simp add: fetch_local_hit)
  qed
  have no_throw: "\<not> store_throws w (today_of w)"
  proof
    assume "store_throws w (today_of w)"
    with miss changed show False by (simp add: fetch_caught)
  qed
  show "(\<exists>r. checkSupabase w (today_of w) = Some r)
          \<or> (checkSupabase w (today_of w) = None \<and> truthy (generate lib (gemini w)))"
  proof (cases "checkSupabase w (today_of w)")
    case (Some r)
    then show ?thesis by simp
  next
    case None
    with miss no_throw changed have "truthy (generate lib (gemini w))"
      by (auto simp: fetch_failed)
    with None show ?thesis by simp
  qed
qed

theorem failed_generation_leaves_local_storage_witness:
  "storage (fetchDailyRecipe sample_lib generateDailyRecipe offline_device)
     = localStorage offline_device
   \<and> localStorage offline_device ''daily_recipe_date'' = Some ''Mon Nov 02 2026''
   \<and> dailyRecipe (fetchDailyRecipe sample_lib generateDailyRecipe offline_device) = JNull
   \<and> isGeneratingRecipe (fetchDailyRecipe sample_lib generateDailyRecipe offline_device) = False
   \<and> storage (fetchDailyRecipe sample_lib generateDailyRecipe fresh_device)
       \<noteq> localStorage fresh_device
   \<and> truthy (generateDailyRecipe sample_lib (gemini fresh_device))"
proof -
  have miss: "checkLocalCache sample_lib (localStorage offline_device)
                (todayString_of offline_device) = None"
    by (simp add: offline_device_facts)
  have no_row: "checkSupabase offline_device (today_of offline_device) = None"
    by (simp add: offline_device_facts)
  have failed: "\<not> truthy (generateDailyRecipe sample_lib (gemini offline_device))"
    by (simp add: offline_device_def generateDailyRecipe_def)
  have tag: "localStorage offline_device ''daily_recipe_date'' = Some ''Mon Nov 02 2026''"
    by (simp add: offline_device_def stale_device_def)
  have written: "storage (fetchDailyRecipe sample_lib generateDailyRecipe fresh_device)
                   ''daily_recipe'' = Some espeto_text"
    by (simp add: fetch_fresh_device setLocal_def sample_lib_simps)
  have "localStorage fresh_device ''daily_recipe'' = None"
    by (simp add: fresh_device_def)
  with written have changed:
    "storage (fetchDailyRecipe sample_lib generateDailyRecipe fresh_device)
       \<noteq> localStorage fresh_device"
    by auto
  show ?thesis
    using failed_generation_leaves_local_storage
        [of sample_lib offline_device generateDailyRecipe]
      failed_generation_leaves_local_storage
        [of sample_lib fresh_device generateDailyRecipe]
    by (simp add: miss no_row failed tag changed today_of_samples checkSupabase_samples)
qed

section \<open>The two renderings of today\<close>













section \<open>Fenced payloads\<close>

lemma str_includes_iff_sublist: "str_includes s p \<longleftrightarrow> sublist p s"
  by (induction s) (simp_all add: sublist_Cons_right)

lemma trim_sublist: "sublist (trim s) s"
proof -
  have "suffix (dropWhile is_ws (rev (dropWhile is_ws s))) (rev (dropWhile is_ws s))"
    by (rule suffix_dropWhile)
  then have "prefix (trim s) (dropWhile is_ws s)"
    by (simp add: trim_def suffix_to_prefix)
  moreover have "suffix (dropWhile is_ws s) s"
    by (rule suffix_dropWhile)
  ultimately show ?thesis
    by (meson prefix_imp_sublist suffix_imp_sublist sublist_order.order_trans)
qed

lemma trim_keeps_fence_free:
  "\<not> str_includes s p \<Longrightarrow> \<not> str_includes (trim s) p"
  using trim_sublist [of s]
  by (auto simp: str_includes_iff_sublist dest: sublist_order.order_trans)

text \<open>Removing the runs of three backticks leaves no two backticks in front that were not there.\<close>

lemma replace_g_no_new_pair:
  assumes "\<not> prefix [b, b] s"
  shows "\<not> prefix [b, b] (replace_g [b, b, b] [] s)"
proof (cases s)
  case Nil
  then show ?thesis by simp
next
  case (Cons x xs)
  show ?thesis
  proof (cases xs)
    case Nil
    with Cons show ?thesis by simp
  next
    case (Cons y ys)
    with \<open>s = x # xs\<close> assms show ?thesis by auto
  qed
qed

lemma replace_g_removes_all:
  assumes "p = [b, b, b]" and "r = []"
  shows "\<not> str_includes (replace_g p r s) p"
  using assms
proof (induction p r s rule: replace_g.induct)
  case (1 p r)
  then show ?case by simp
next
  case (2 p r c cs)
  note p = \<open>p = [b, b, b]\<close> and r = \<open>r = []\<close>
  show ?case
  proof (cases "prefix p (c # cs)")
    case True
    with p have matched: "p \<noteq> [] \<and> prefix p (c # cs)" by blast
    then have "\<not> str_includes (replace_g p r (drop (length p) (c # cs))) p"
      using p r by (rule "2.IH"(1))
    moreover have "replace_g p r (c # cs) = r @ replace_g p r (drop (length p) (c # cs))"
      by (subst replace_g.simps) (use matched in simp)
    ultimately show ?thesis using r by simp
  next
    case unmatched: False
    then have "\<not> (p \<noteq> [] \<and> prefix p (c # cs))" by blast
    then have rest: "\<not> str_includes (replace_g p r cs) p"
      using p r by (rule "2.IH"(2))
    have step: "replace_g p r (c # cs) = c # replace_g p r cs"
      by (subst replace_g.simps) (use unmatched in simp)
    have "\<not> prefix p (c # replace_g p r cs)"
    proof (cases "c = b")
      case True
      from unmatched have "\<not> prefix [b, b] cs"
        unfolding p True by simp
      then have "\<not> prefix [b, b] (replace_g [b, b, b] [] cs)"
        by (rule replace_g_no_new_pair)
      then show ?thesis unfolding p r True by simp
    next
      case False
      then show ?thesis unfolding p by simp
    qed
    with rest show ?thesis unfolding step by simp
  qed
qed

text \<open>
  The module with the fence handling: a response whose trimmed text contains a fence
  is parsed after both replacements and a second trim, the text handed to
  \<^verbatim>\<open>JSON.parse\<close> contains no fence, and a text that does not parse gives \<^verbatim>\<open>null\<close>.
\<close>

lemma generateDailyRecipe_strips_fences:
  assumes "t \<noteq> []" and "str_includes (trim t) ''```''"
  shows "generateDailyRecipe lib (Responds (Some t)) =
           (case parse lib (trim (replace_g ''```'' [] (replace_g ''```json'' [] (trim t)))) of
              Some v \<Rightarrow> v
            | None \<Rightarrow> JNull)"
    and "\<not> str_includes (trim (replace_g ''```'' [] (replace_g ''```json'' [] (trim t)))) ''```''"
proof -
  show "generateDailyRecipe lib (Responds (Some t)) =
           (case parse lib (trim (replace_g ''```'' [] (replace_g ''```json'' [] (trim t)))) of
              Some v \<Rightarrow> v
            | None \<Rightarrow> JNull)"
    using assms by (simp add: generateDailyRecipe_def Let_def)
  have "\<not> str_includes (replace_g ''```'' [] (replace_g ''```json'' [] (trim t))) ''```''"
    by (rule replace_g_removes_all [where b = "CHR 0x60"]) simp_all
  then show "\<not> str_includes
      (trim (replace_g ''```'' [] (replace_g ''```json'' [] (trim t)))) ''```''"
    by (rule trim_keeps_fence_free)
qed

text \<open>The module without it: a text that does not parse as it stands gives \<^verbatim>\<open>null\<close>.\<close>

lemma generateDailyRecipe_plain_unparsed:
  "parse lib (trim t) = None \<Longrightarrow> generateDailyRecipe_plain lib (Responds (Some t)) = JNull"
  by (simp add: generateDailyRecipe_plain_def)

lemma stripped_fenced_espeto:
  "trim (replace_g ''```'' [] (replace_g ''```json'' [] (trim fenced_espeto_text))) = espeto_text"
  by code_simp

lemma fenced_espeto_includes_fence: "str_includes (trim fenced_espeto_text) ''```''"
  by code_simp

lemma trim_fenced_espeto: "trim fenced_espeto_text = fenced_espeto_text"
  by code_simp

lemma fenced_espeto_unparsed: "parse sample_lib fenced_espeto_text = None"
proof -
  have "fenced_espeto_text \<noteq> espeto_text" "fenced_espeto_text \<noteq> sem_beneficios_text"
    by (simp_all add: fenced_espeto_text_def espeto_text_def sem_beneficios_text_def)
  then show ?thesis by (simp add: sample_lib_def)
qed

text \<open>
  C4 on the two service modules. For the recipe's text inside a \<^verbatim>\<open>json\<close> fence, the
  module with the fence handling returns the recipe; the module that parses the
  trimmed text as it stands returns \<^verbatim>\<open>null\<close>, because the text starts with a backtick
  and \<^verbatim>\<open>JSON.parse\<close> rejects it.
\<close>

theorem fenced_payload_on_both_modules:
  "generateDailyRecipe sample_lib (Responds (Some fenced_espeto_text)) = espeto
   \<and> generateDailyRecipe_plain sample_lib (Responds (Some fenced_espeto_text)) = JNull"
proof
  have "fenced_espeto_text \<noteq> []"
    by (simp add: fenced_espeto_text_def)
  then show "generateDailyRecipe sample_lib (Responds (Some fenced_espeto_text)) = espeto"
    using fenced_espeto_includes_fence
    by (simp add: generateDailyRecipe_strips_fences(1) stripped_fenced_espeto sample_lib_simps)
  show "generateDailyRecipe_plain sample_lib (Responds (Some fenced_espeto_text)) = JNull"
    by (rule generateDailyRecipe_plain_unparsed)
      (simp add: trim_fenced_espeto fenced_espeto_unparsed)
qed

section \<open>Objects without benefits\<close>

text \<open>The local stage returns only values whose \<^verbatim>\<open>benefits\<close> is an array.\<close>

lemma local_hit_has_benefits:
  "checkLocalCache lib ls t = Some r \<Longrightarrow> truthy r \<and> isArray (get_field r ''benefits'')"
  by (auto simp: checkLocalCache_def split: option.splits if_splits)

text \<open>The shared stage takes the row of a configured store as it comes.\<close>

lemma shared_hit_unchecked:
  "isSupabaseConfigured w \<Longrightarrow>
     select_single w k = Answers \<lparr>data = Some r, error = False\<rparr> \<Longrightarrow>
     checkSupabase w k = Some r"
  by (simp add: checkSupabase_def)

text \<open>Both service modules return what \<^verbatim>\<open>JSON.parse\<close> gives for a plain text.\<close>

lemma generation_unchecked:
  assumes "t \<noteq> []" and "\<not> str_includes (trim t) ''```''" and "parse lib (trim t) = Some v"
  shows "generateDailyRecipe lib (Responds (Some t)) = v"
    and "generateDailyRecipe_plain lib (Responds (Some t)) = v"
  using assms by (simp_all add: generateDailyRecipe_def generateDailyRecipe_plain_def)

lemma generate_sem_beneficios:
  "generateDailyRecipe sample_lib (Responds (Some sem_beneficios_text)) = sem_beneficios"
proof -
  have "trim sem_beneficios_text = sem_beneficios_text" by code_simp
  moreover have "\<not> str_includes sem_beneficios_text ''```''" by code_simp
  ultimately show ?thesis
    using generation_unchecked(1) [of sem_beneficios_text sample_lib sem_beneficios]
    by (simp add: sample_lib_simps sample_values)
qed

text \<open>
  C2 on the code. The local stage rejects an object without an array \<^verbatim>\<open>benefits\<close>
  (\<open>local_hit_has_benefits\<close>), the other two stages do not look: when the generation
  service answers with an object that has no \<^verbatim>\<open>benefits\<close>, the pipeline exposes it and
  writes it to the local cache, and when the shared store holds such an object, the
  pipeline exposes it without calling the generation service.
\<close>

theorem object_without_benefits_is_accepted:
  "get_field sem_beneficios ''benefits'' = None
   \<and> fetchDailyRecipe sample_lib generateDailyRecipe careless_service_device =
       \<lparr>dailyRecipe = sem_beneficios, isGeneratingRecipe = False,
        storage = Map.empty(''daily_recipe'' \<mapsto> sem_beneficios_text,
                            ''daily_recipe_date'' \<mapsto> ''Tue Nov 03 2026''),
        calls = [Generate]\<rparr>
   \<and> fetchDailyRecipe sample_lib generateDailyRecipe careless_store_device =
       \<lparr>dailyRecipe = sem_beneficios, isGeneratingRecipe = False,
        storage = Map.empty(''daily_recipe'' \<mapsto> sem_beneficios_text,
                            ''daily_recipe_date'' \<mapsto> ''Tue Nov 03 2026''),
        calls = [SharedRead ''2026-11-03'']\<rparr>"
proof (intro conjI)
  show "get_field sem_beneficios ''benefits'' = None"
    by (simp add: sem_beneficios_def)
next
  let ?w = careless_service_device
  have today: "today_of ?w = ''2026-11-03''" "todayString_of ?w = ''Tue Nov 03 2026''"
    using today_of_samples(1) todayString_of_samples(1)
    by (simp_all add: today_of_def todayString_of_def careless_service_device_def)
  have "localStorage ?w = localStorage fresh_device"
    by (simp add: careless_service_device_def)
  then have miss: "checkLocalCache sample_lib (localStorage ?w) (todayString_of ?w) = None"
    by (simp only: today checkLocalCache_samples)
  have off: "\<not> isSupabaseConfigured ?w"
    using configured_samples(1)
    by (simp add: isSupabaseConfigured_def supabaseUrl_def supabaseAnonKey_def
        careless_service_device_def)
  then have no_row: "checkSupabase ?w (today_of ?w) = None"
    by (rule checkSupabase_unconfigured)
  from off have no_throw: "\<not> store_throws ?w (today_of ?w)"
    by (rule not_configured_no_throw)
  have g: "generateDailyRecipe sample_lib (gemini ?w) = sem_beneficios"
    by (simp add: careless_service_device_def generate_sem_beneficios)
  have "fetchDailyRecipe sample_lib generateDailyRecipe ?w =
       \<lparr>dailyRecipe = sem_beneficios, isGeneratingRecipe = False,
        storage = setLocal sample_lib sem_beneficios ''Tue Nov 03 2026'' (localStorage ?w),
        calls = [Generate]\<rparr>"
    using fetch_generated [OF miss no_throw no_row, of generateDailyRecipe] off
    by (simp add: g today sample_values)
  then show "fetchDailyRecipe sample_lib generateDailyRecipe ?w =
       \<lparr>dailyRecipe = sem_beneficios, isGeneratingRecipe = False,
        storage = Map.empty(''daily_recipe'' \<mapsto> sem_beneficios_text,
                            ''daily_recipe_date'' \<mapsto> ''Tue Nov 03 2026''),
        calls = [Generate]\<rparr>"
    by (simp add: setLocal_def sample_lib_simps careless_service_device_def fresh_device_def)
next
  let ?w = careless_store_device
  have today: "today_of ?w = ''2026-11-03''" "todayString_of ?w = ''Tue Nov 03 2026''"
    using today_of_samples(2) todayString_of_samples(2)
    by (simp_all add: today_of_def todayString_of_def careless_store_device_def)
  have "localStorage ?w = localStorage connected_device"
    by (simp add: careless_store_device_def)
  then have miss: "checkLocalCache sample_lib (localStorage ?w) (todayString_of ?w) = None"
    by (simp only: today checkLocalCache_samples)
  have on: "isSupabaseConfigured ?w"
    using configured_samples(2)
    by (simp add: isSupabaseConfigured_def supabaseUrl_def supabaseAnonKey_def
        careless_store_device_def)
  have "select_single ?w (today_of ?w)
        = Answers \<lparr>data = Some sem_beneficios, error = False\<rparr>"
    by (simp add: careless_store_device_def)
  with on have row: "checkSupabase ?w (today_of ?w) = Some sem_beneficios"
    by (rule shared_hit_unchecked)
  have "fetchDailyRecipe sample_lib generateDailyRecipe ?w =
       \<lparr>dailyRecipe = sem_beneficios, isGeneratingRecipe = False,
        storage = setLocal sample_lib sem_beneficios ''Tue Nov 03 2026'' (localStorage ?w),
        calls = [SharedRead ''2026-11-03'']\<rparr>"
    using fetch_shared_hit [OF miss row, of generateDailyRecipe] by (simp add: today)
  then show "fetchDailyRecipe sample_lib generateDailyRecipe ?w =
       \<lparr>dailyRecipe = sem_beneficios, isGeneratingRecipe = False,
        storage = Map.empty(''daily_recipe'' \<mapsto> sem_beneficios_text,
                            ''daily_recipe_date'' \<mapsto> ''Tue Nov 03 2026''),
        calls = [SharedRead ''2026-11-03'']\<rparr>"
    by (simp add: setLocal_def sample_lib_simps careless_store_device_def
        connected_device_def fresh_device_def)
qed

end
